theory Spec2Isabelle
  imports Main "HOL-Library.Word"
begin

section \<open>The persistent record store of the DHT\<close>

text \<open>
  The store is the class \<open>Persistent\<close> (second half of
  \<open>src/examples/basic-connectivity/client.mjs\<close>). Every handler takes a request,
  may change the caches and the router of its DHT node, and either replies, answers with
  a typed error, or returns without answering. A handler is modelled as a function from
  the state and the request to an outcome and the new state.
\<close>

subsection \<open>Buffers and their hex encoding\<close>

type_synonym buffer = "8 word list"

definition hexdigit :: "nat \<Rightarrow> char" where
  "hexdigit n = ''0123456789abcdef'' ! n"

text \<open>\<open>buf.toString('hex')\<close>: two lower-case hex digits for each byte.\<close>

fun toString_hex :: "buffer \<Rightarrow> string" where
  "toString_hex [] = []"
| "toString_hex (b # bs) =
     hexdigit (unat b div 16) # hexdigit (unat b mod 16) # toString_hex bs"

text \<open>\<open>Buffer.compare(a, b)\<close>: -1, 0 or 1, bytes compared from the left.\<close>

fun Buffer_compare :: "buffer \<Rightarrow> buffer \<Rightarrow> int" where
  "Buffer_compare [] [] = 0"
| "Buffer_compare [] (y # ys) = -1"
| "Buffer_compare (x # xs) [] = 1"
| "Buffer_compare (x # xs) (y # ys) =
     (if x = y then Buffer_compare xs ys else if x < y then -1 else 1)"

subsection \<open>Messages\<close>

record address =
  host :: string
  port :: nat

record peer =
  publicKey :: buffer
  relayAddresses :: "address list"

record announce =
  ann_peer :: "peer option"
  ann_refresh :: "buffer option"
  ann_signature :: "buffer option"

record mutablePutRequest =
  mp_publicKey :: buffer
  mp_seq :: nat
  mp_value :: "buffer option"
  mp_signature :: buffer

record mutableGetResponse =
  mg_seq :: nat
  mg_value :: buffer
  mg_signature :: buffer

text \<open>
  A request of the RPC layer. \<open>req.target\<close>, \<open>req.token\<close> and \<open>req.value\<close> are a
  Buffer or null; a Buffer is truthy even when it is empty, so \<open>!req.target\<close> is
  exactly the case \<open>None\<close>.
\<close>

record request =
  req_target :: "buffer option"
  req_token :: "buffer option"
  req_value :: "buffer option"
  req_from :: address

datatype error_code = SEQ_REUSED | SEQ_TOO_LOW

record reply_options =
  opt_token :: bool
  opt_closerNodes :: bool

text \<open>
  What a handler did with the request: returned without answering, called
  \<open>req.reply(value, options)\<close>, called \<open>req.error(code)\<close>, or left through an
  exception that nothing in the handler catches.
\<close>

datatype outcome =
    Dropped
  | Replied "buffer option" "reply_options option"
  | Errored error_code
  | Threw

definition no_token_no_closer :: "reply_options option" where
  "no_token_no_closer = Some \<lparr>opt_token = False, opt_closerNodes = False\<rparr>"

subsection \<open>Crypto and codecs, taken as parameters\<close>

text \<open>
  \<open>sodium-universal\<close>, \<open>compact-encoding\<close> and the schemas of \<open>./messages\<close> are
  not part of the sources at hand, so the handlers are modelled over any choice of them.
  A decoder may throw (\<open>None\<close>); the source wraps each decoding of request data in
  \<open>try\<close>. An encoder handed a value of its schema returns a Buffer. The source also
  hands two encoders a value of another shape: \<open>m.peer\<close> gets \<open>ann.peer\<close> when that
  is null, and \<open>m.mutableGetResponse\<close> gets the stored Buffer. What the encoder does
  then is a parameter of its own, \<open>None\<close> when it throws.
\<close>

record env =
  crypto_generichash :: "buffer \<Rightarrow> buffer option \<Rightarrow> buffer"
  crypto_generichash_batch :: "buffer list \<Rightarrow> buffer \<Rightarrow> buffer"
  crypto_sign_verify_detached :: "buffer \<Rightarrow> buffer \<Rightarrow> buffer \<Rightarrow> bool"
  NS_ANNOUNCE :: buffer
  NS_UNANNOUNCE :: buffer
  NS_MUTABLE_PUT :: buffer
  decode_announce :: "buffer \<Rightarrow> announce option"
  decode_mutablePutRequest :: "buffer \<Rightarrow> mutablePutRequest option"
  decode_uint :: "buffer \<Rightarrow> nat option"
  encode_peer :: "peer \<Rightarrow> buffer"
  encode_peer_null :: "buffer option"
  encode_mutableGetResponse :: "mutableGetResponse \<Rightarrow> buffer"
  encode_mutableGetResponse_Buffer :: "buffer \<Rightarrow> buffer option"
  encode_mutableSignable :: "nat \<Rightarrow> buffer \<Rightarrow> buffer"
  encode_rawArray :: "buffer list \<Rightarrow> buffer"

subsection \<open>The caches and the router\<close>

text \<open>
  Modelled from the spec: the router (\<open>this.dht._router\<close>) is not under src/. It
  maps each locally-announced key to an entry \<open>{relay, record, onconnect, onholepunch}\<close>.
  The handlers name a key by its hex string, \<open>onfindpeer\<close> by the target Buffer
  itself; both name the same key.
\<close>

datatype hook = Hook nat

record forward =
  relay :: address
  fwd_record :: buffer
  onconnect :: "hook option"
  onholepunch :: "hook option"

type_synonym router = "string \<rightharpoonup> forward"

datatype router_key = KString string | KBuffer buffer

fun key_name :: "router_key \<Rightarrow> string" where
  "key_name (KString s) = s"
| "key_name (KBuffer b) = toString_hex b"

definition router_get :: "router \<Rightarrow> router_key \<Rightarrow> forward option" where
  "router_get r k = r (key_name k)"

definition router_set :: "router \<Rightarrow> router_key \<Rightarrow> forward \<Rightarrow> router" where
  "router_set r k v = r(key_name k \<mapsto> v)"

definition router_delete :: "router \<Rightarrow> router_key \<Rightarrow> router" where
  "router_delete r k = r(key_name k := None)"

text \<open>
  Modelled from the spec: the announce cache (\<open>record-cache\<close>) is not under src/. It
  holds one record for each pair of a target (by name) and a public key; \<open>get\<close>
  returns up to \<open>n\<close> of the records of a target. Eviction by size and age is left
  out: the model is the cache while nothing expires.
\<close>

type_synonym record_cache = "(string \<times> buffer \<times> buffer) list"

definition records_remove :: "record_cache \<Rightarrow> string \<Rightarrow> buffer \<Rightarrow> record_cache" where
  "records_remove c name key = filter (\<lambda>(n, k, v). \<not> (n = name \<and> k = key)) c"

definition records_add :: "record_cache \<Rightarrow> string \<Rightarrow> buffer \<Rightarrow> buffer \<Rightarrow> record_cache" where
  "records_add c name key v = records_remove c name key @ [(name, key, v)]"

definition records_get :: "record_cache \<Rightarrow> string \<Rightarrow> nat \<Rightarrow> buffer list" where
  "records_get c name n = take n (map (\<lambda>(n, k, v). v) (filter (\<lambda>(n, k, v). n = name) c))"

definition records_lookup :: "record_cache \<Rightarrow> string \<Rightarrow> buffer \<Rightarrow> buffer option" where
  "records_lookup c name key = map_of (map (\<lambda>(n, k, v). ((n, k), v)) c) (name, key)"

text \<open>
  Modelled from the spec: the other caches (\<open>xache\<close>) are not under src/. Each is a
  map from a hex string to the stored value, with \<open>get\<close>, \<open>set\<close> and \<open>delete\<close>;
  eviction is left out as above.
\<close>

record refresh_entry =
  rf_k :: string
  rf_record :: buffer
  rf_announceSelf :: bool

record persistent =
  dht_id :: buffer
  dht_router :: router
  records :: record_cache
  refreshes :: "string \<rightharpoonup> refresh_entry"
  mutables :: "string \<rightharpoonup> buffer"
  immutables :: "string \<rightharpoonup> buffer"

subsection \<open>Immutable values\<close>

definition onimmutableget :: "persistent \<Rightarrow> request \<Rightarrow> outcome \<times> persistent" where
  "onimmutableget s req =
     (case req_target req of
        None \<Rightarrow> (Dropped, s)
      | Some target \<Rightarrow>
          (let k = toString_hex target;
               v = immutables s k
           in (Replied v None, s)))"

definition onimmutableput :: "env \<Rightarrow> persistent \<Rightarrow> request \<Rightarrow> outcome \<times> persistent" where
  "onimmutableput e s req =
     (case (req_target req, req_token req, req_value req) of
        (Some target, Some token, Some v) \<Rightarrow>
          (let hash = crypto_generichash e v None
           in if hash \<noteq> target then (Dropped, s)
              else (let k = toString_hex hash
                    in (Replied None None, s\<lparr>immutables := (immutables s)(k \<mapsto> v)\<rparr>)))
      | _ \<Rightarrow> (Dropped, s))"

subsection \<open>Lookup and findPeer\<close>

definition onlookup :: "env \<Rightarrow> persistent \<Rightarrow> request \<Rightarrow> outcome \<times> persistent" where
  "onlookup e s req =
     (case req_target req of
        None \<Rightarrow> (Dropped, s)
      | Some target \<Rightarrow>
          (let k = toString_hex target;
               recs = records_get (records s) k 20;
               fwd = router_get (dht_router s) (KString k);
               recs' = (case fwd of
                          None \<Rightarrow> recs
                        | Some f \<Rightarrow> if length recs < 20 then recs @ [fwd_record f] else recs)
           in (Replied (if length recs' \<noteq> 0 then Some (encode_rawArray e recs') else None) None,
               s)))"

definition onfindpeer :: "persistent \<Rightarrow> request \<Rightarrow> outcome \<times> persistent" where
  "onfindpeer s req =
     (case req_target req of
        None \<Rightarrow> (Dropped, s)
      | Some target \<Rightarrow>
          (let fwd = router_get (dht_router s) (KBuffer target)
           in (Replied (case fwd of None \<Rightarrow> None | Some f \<Rightarrow> Some (fwd_record f)) None, s)))"

subsection \<open>Announce, unannounce and refresh\<close>

text \<open>The helper \<open>decode(enc, val)\<close>: null when \<open>val\<close> is null or the decoder throws.\<close>

definition decode :: "(buffer \<Rightarrow> 'a option) \<Rightarrow> buffer option \<Rightarrow> 'a option" where
  "decode enc val = (case val of None \<Rightarrow> None | Some v \<Rightarrow> enc v)"

text \<open>
  \<open>annSignable\<close> encodes \<open>ann.peer\<close> whatever it is; \<open>None\<close> is the exception of
  the encoder on a null peer.
\<close>

definition annSignable ::
  "env \<Rightarrow> buffer \<Rightarrow> buffer \<Rightarrow> buffer \<Rightarrow> announce \<Rightarrow> buffer \<Rightarrow> buffer option" where
  "annSignable e target token ident ann ns =
     (case (case ann_peer ann of None \<Rightarrow> encode_peer_null e | Some p \<Rightarrow> Some (encode_peer e p)) of
        None \<Rightarrow> None
      | Some encoded \<Rightarrow>
          Some (crypto_generichash_batch e
                  [target, ident, token, encoded,
                   (case ann_refresh ann of None \<Rightarrow> [] | Some r \<Rightarrow> r)] ns))"

definition unannounce :: "env \<Rightarrow> persistent \<Rightarrow> buffer \<Rightarrow> buffer \<Rightarrow> persistent" where
  "unannounce e s target pk =
     (let k = toString_hex target;
          TMP = crypto_generichash e pk None;
          s1 = (if TMP = target
                then s\<lparr>dht_router := router_delete (dht_router s) (KString k)\<rparr> else s)
      in s1\<lparr>records := records_remove (records s1) k pk\<rparr>)"

definition onunannounce :: "env \<Rightarrow> persistent \<Rightarrow> request \<Rightarrow> outcome \<times> persistent" where
  "onunannounce e s req =
     (case (req_target req, req_token req) of
        (Some target, Some token) \<Rightarrow>
          (case decode (decode_announce e) (req_value req) of
             None \<Rightarrow> (Dropped, s)
           | Some unann \<Rightarrow>
               (case (ann_peer unann, ann_signature unann) of
                  (Some p, Some sg) \<Rightarrow>
                    (case annSignable e target token (dht_id s) unann (NS_UNANNOUNCE e) of
                       None \<Rightarrow> (Threw, s)
                     | Some signable \<Rightarrow>
                         if \<not> crypto_sign_verify_detached e sg signable (publicKey p)
                         then (Dropped, s)
                         else (Replied None no_token_no_closer,
                               unannounce e s target (publicKey p)))
                | _ \<Rightarrow> (Dropped, s)))
      | _ \<Rightarrow> (Dropped, s))"

definition onrefresh :: "env \<Rightarrow> persistent \<Rightarrow> buffer \<Rightarrow> request \<Rightarrow> outcome \<times> persistent" where
  "onrefresh e s token req =
     (let activeRefresh = toString_hex (crypto_generichash e token None)
      in case refreshes s activeRefresh of
           None \<Rightarrow> (Dropped, s)
         | Some r \<Rightarrow>
             (let k = rf_k r;
                  rec = rf_record r;
                  pk = take 32 rec;
                  s1 = (if rf_announceSelf r
                        then s\<lparr>dht_router :=
                                 router_set (dht_router s) (KString k)
                                   \<lparr>relay = req_from req, fwd_record = rec,
                                    onconnect = None, onholepunch = None\<rparr>,
                               records := records_remove (records s) k pk\<rparr>
                        else s\<lparr>records := records_add (records s) k pk rec\<rparr>);
                  s2 = s1\<lparr>refreshes :=
                            ((refreshes s1)(activeRefresh := None))(toString_hex token \<mapsto> r)\<rparr>
              in (Replied None no_token_no_closer, s2)))"

definition truncate_relayAddresses :: "peer \<Rightarrow> peer" where
  "truncate_relayAddresses p =
     (if length (relayAddresses p) > 3
      then p\<lparr>relayAddresses := take 3 (relayAddresses p)\<rparr> else p)"

definition onannounce :: "env \<Rightarrow> persistent \<Rightarrow> request \<Rightarrow> outcome \<times> persistent" where
  "onannounce e s req =
     (case (req_target req, req_token req) of
        (Some target, Some token) \<Rightarrow>
          (case decode (decode_announce e) (req_value req) of
             None \<Rightarrow> (Dropped, s)
           | Some ann \<Rightarrow>
               (case annSignable e target token (dht_id s) ann (NS_ANNOUNCE e) of
                  None \<Rightarrow> (Threw, s)
                | Some signable \<Rightarrow>
                    (case ann_peer ann of
                       None \<Rightarrow>
                         (case ann_refresh ann of
                            None \<Rightarrow> (Dropped, s)
                          | Some refresh \<Rightarrow> onrefresh e s refresh req)
                     | Some p0 \<Rightarrow>
                         (case ann_signature ann of
                            None \<Rightarrow> (Dropped, s)
                          | Some sg \<Rightarrow>
                              if \<not> crypto_sign_verify_detached e sg signable (publicKey p0)
                              then (Dropped, s)
                              else
                                (let p = truncate_relayAddresses p0;
                                     TMP = crypto_generichash e (publicKey p) None;
                                     k = toString_hex target;
                                     announceSelf = (TMP = target);
                                     rec = encode_peer e p;
                                     s1 = (if announceSelf
                                           then s\<lparr>dht_router :=
                                                    router_set (dht_router s) (KString k)
                                                      \<lparr>relay = req_from req, fwd_record = rec,
                                                       onconnect = None, onholepunch = None\<rparr>,
                                                  records :=
                                                    records_remove (records s) k (publicKey p)\<rparr>
                                           else s\<lparr>records :=
                                                    records_add (records s) k (publicKey p) rec\<rparr>);
                                     s2 = (case ann_refresh ann of
                                             None \<Rightarrow> s1
                                           | Some refresh \<Rightarrow>
                                               s1\<lparr>refreshes :=
                                                    (refreshes s1)(toString_hex refresh \<mapsto>
                                                      \<lparr>rf_k = k, rf_record = rec,
                                                       rf_announceSelf = announceSelf\<rparr>)\<rparr>)
                                 in (Replied None no_token_no_closer, s2))))))
      | _ \<Rightarrow> (Dropped, s))"

subsection \<open>Mutable values\<close>

definition onmutableget :: "env \<Rightarrow> persistent \<Rightarrow> request \<Rightarrow> outcome \<times> persistent" where
  "onmutableget e s req =
     (case (req_target req, req_value req) of
        (Some target, Some rv) \<Rightarrow>
          (case decode_uint e rv of
             None \<Rightarrow> (Dropped, s)
           | Some seq \<Rightarrow>
               (let k = toString_hex target
                in case mutables s k of
                     None \<Rightarrow> (Replied None None, s)
                   | Some v \<Rightarrow>
                       (case decode_uint e v of
                          None \<Rightarrow> (Threw, s)
                        | Some localSeq \<Rightarrow>
                            (Replied (if localSeq < seq then None else Some v) None, s))))
      | _ \<Rightarrow> (Dropped, s))"

definition verifyMutable :: "env \<Rightarrow> buffer \<Rightarrow> nat \<Rightarrow> buffer \<Rightarrow> buffer \<Rightarrow> bool" where
  "verifyMutable e sg seq v pk =
     (let signable = crypto_generichash e (encode_mutableSignable e seq v) (Some (NS_MUTABLE_PUT e))
      in crypto_sign_verify_detached e sg signable pk)"

text \<open>
  \<open>onmutableput\<close> binds \<open>existing\<close> to \<open>c.encode(m.mutableGetResponse, local)\<close>, and
  \<open>c.encode\<close> returns the Buffer it filled. The handler then reads \<open>existing.value\<close>
  and \<open>existing.seq\<close>. Only these two properties are read, and a Buffer has neither;
  reading a property that an object lacks gives \<open>undefined\<close>.
\<close>

datatype jsval = Undefined | Number nat | Bytes buffer

fun truthy :: "jsval \<Rightarrow> bool" where
  "truthy Undefined = False"
| "truthy (Number n) = (n \<noteq> 0)"
| "truthy (Bytes b) = True"

definition Buffer_prop :: "buffer \<Rightarrow> string \<Rightarrow> jsval" where
  "Buffer_prop b name = (if name = ''length'' then Number (length b) else Undefined)"

text \<open>\<open>seq < x\<close> for a number \<open>seq\<close>: false against \<open>undefined\<close>, which converts to NaN.\<close>

fun less_than :: "nat \<Rightarrow> jsval \<Rightarrow> bool" where
  "less_than n (Number m) = (n < m)"
| "less_than n Undefined = False"

text \<open>
  The block under \<open>if (local)\<close>: \<open>Some\<close> outcome when the handler leaves there,
  \<open>None\<close> when it goes on to store. \<open>Buffer.compare\<close> is reached only behind the two
  other conjuncts and throws when its second argument is no Buffer.
\<close>

definition check_existing :: "env \<Rightarrow> buffer \<Rightarrow> nat \<Rightarrow> buffer \<Rightarrow> outcome option" where
  "check_existing e local seq v =
     (case encode_mutableGetResponse_Buffer e local of
        None \<Rightarrow> Some Threw
      | Some existing \<Rightarrow>
          (let existing_value = Buffer_prop existing ''value'';
               existing_seq = Buffer_prop existing ''seq''
           in if truthy existing_value \<and> existing_seq = Number seq
              then (case existing_value of
                      Bytes b \<Rightarrow>
                        if Buffer_compare v b \<noteq> 0 then Some (Errored SEQ_REUSED)
                        else if less_than seq existing_seq then Some (Errored SEQ_TOO_LOW)
                        else None
                    | _ \<Rightarrow> Some Threw)
              else if less_than seq existing_seq then Some (Errored SEQ_TOO_LOW)
              else None))"

definition onmutableput :: "env \<Rightarrow> persistent \<Rightarrow> request \<Rightarrow> outcome \<times> persistent" where
  "onmutableput e s req =
     (case (req_target req, req_token req, req_value req) of
        (Some target, Some token, Some rv) \<Rightarrow>
          (case decode (decode_mutablePutRequest e) (Some rv) of
             None \<Rightarrow> (Dropped, s)
           | Some p \<Rightarrow>
               (let hash = crypto_generichash e (mp_publicKey p) None
                in if hash \<noteq> target then (Dropped, s)
                   else
                     (case mp_value p of
                        None \<Rightarrow> (Dropped, s)
                      | Some v \<Rightarrow>
                          if \<not> verifyMutable e (mp_signature p) (mp_seq p) v (mp_publicKey p)
                          then (Dropped, s)
                          else
                            (let k = toString_hex hash
                             in case (case mutables s k of
                                        None \<Rightarrow> None
                                      | Some local \<Rightarrow> check_existing e local (mp_seq p) v) of
                                  Some out \<Rightarrow> (out, s)
                                | None \<Rightarrow>
                                    (Replied None None,
                                     s\<lparr>mutables := (mutables s)(k \<mapsto>
                                         encode_mutableGetResponse e
                                           \<lparr>mg_seq = mp_seq p, mg_value = v,
                                            mg_signature = mp_signature p\<rparr>)\<rparr>)))))
      | _ \<Rightarrow> (Dropped, s))"

subsection \<open>An environment for concrete inputs\<close>

text \<open>
  The general lemmas below hold for every environment. To run the handlers on concrete
  requests, \<open>example_env\<close> fixes one: a toy hash that adds one to each byte, a
  signature that is valid when it equals the signable, and codecs given by small
  tables. Its encoders raise when they are handed a value that is not of their schema
  (null for a peer, a Buffer for a mutable record), as an encoder does that reads the
  fields of its argument and copies them into the Buffer it fills.
\<close>

definition example_peer :: peer where
  "example_peer =
     \<lparr>publicKey = [1, 2],
      relayAddresses =
        [\<lparr>host = ''10.0.0.1'', port = 1\<rparr>, \<lparr>host = ''10.0.0.2'', port = 2\<rparr>,
         \<lparr>host = ''10.0.0.3'', port = 3\<rparr>, \<lparr>host = ''10.0.0.4'', port = 4\<rparr>]\<rparr>"

definition example_encode_peer :: "peer \<Rightarrow> buffer" where
  "example_encode_peer p =
     publicKey p @ of_nat (length (relayAddresses p)) # map (\<lambda>a. of_nat (port a)) (relayAddresses p)"

definition example_decode_announce :: "buffer \<Rightarrow> announce option" where
  "example_decode_announce b =
     (if b = [1] then
        Some \<lparr>ann_peer = Some example_peer, ann_refresh = None,
              ann_signature = Some [2, 3, 9, 7, 1, 2, 4, 1, 2, 3, 4, 100]\<rparr>
      else if b = [2] then
        Some \<lparr>ann_peer = Some example_peer, ann_refresh = None,
              ann_signature = Some [2, 3, 9, 7, 1, 2, 4, 1, 2, 3, 4, 101]\<rparr>
      else if b = [3] then
        Some \<lparr>ann_peer = Some example_peer, ann_refresh = None, ann_signature = Some [0]\<rparr>
      else if b = [4] then
        Some \<lparr>ann_peer = None, ann_refresh = Some [7], ann_signature = None\<rparr>
      else if b = [5] then
        Some \<lparr>ann_peer = None, ann_refresh = None, ann_signature = None\<rparr>
      else None)"

definition example_decode_mutablePutRequest :: "buffer \<Rightarrow> mutablePutRequest option" where
  "example_decode_mutablePutRequest b =
     (if b = [1] then
        Some \<lparr>mp_publicKey = [1, 2], mp_seq = 1, mp_value = Some [98], mp_signature = [2, 99, 3]\<rparr>
      else if b = [2] then
        Some \<lparr>mp_publicKey = [1, 2], mp_seq = 1, mp_value = Some [97], mp_signature = [2, 98, 3]\<rparr>
      else if b = [3] then
        Some \<lparr>mp_publicKey = [1, 2], mp_seq = 1, mp_value = Some [97], mp_signature = [0]\<rparr>
      else if b = [4] then
        Some \<lparr>mp_publicKey = [1, 2], mp_seq = 2, mp_value = Some [97], mp_signature = [3, 98, 3]\<rparr>
      else None)"

definition example_env :: env where
  "example_env =
     \<lparr>crypto_generichash =
        (\<lambda>b key. map (\<lambda>x. x + 1) b @ (case key of None \<Rightarrow> [] | Some k \<Rightarrow> k)),
      crypto_generichash_batch = (\<lambda>bs ns. concat bs @ ns),
      crypto_sign_verify_detached = (\<lambda>sg signable pk. sg = signable),
      NS_ANNOUNCE = [100],
      NS_UNANNOUNCE = [101],
      NS_MUTABLE_PUT = [3],
      decode_announce = example_decode_announce,
      decode_mutablePutRequest = example_decode_mutablePutRequest,
      decode_uint = (\<lambda>b. case b of [] \<Rightarrow> None | x # xs \<Rightarrow> Some (unat x)),
      encode_peer = example_encode_peer,
      encode_peer_null = None,
      encode_mutableGetResponse =
        (\<lambda>r. of_nat (mg_seq r) # of_nat (length (mg_value r)) # mg_value r @ mg_signature r),
      encode_mutableGetResponse_Buffer = (\<lambda>b. None),
      encode_mutableSignable = (\<lambda>seq v. of_nat seq # v),
      encode_rawArray = (\<lambda>bs. of_nat (length bs) # concat bs)\<rparr>"

definition example_from :: address where
  "example_from = \<lparr>host = ''192.0.2.7'', port = 4000\<rparr>"

definition empty_store :: persistent where
  "empty_store =
     \<lparr>dht_id = [9], dht_router = Map.empty, records = [], refreshes = Map.empty,
      mutables = Map.empty, immutables = Map.empty\<rparr>"

definition request_of :: "buffer \<Rightarrow> buffer option \<Rightarrow> request" where
  "request_of target v =
     \<lparr>req_target = Some target, req_token = Some [7], req_value = v, req_from = example_from\<rparr>"

text \<open>Stores reached from the empty one by accepted requests.\<close>

definition immutable_stored :: persistent where
  "immutable_stored =
     snd (onimmutableput example_env empty_store (request_of [2, 3] (Some [1, 2])))"

definition mutable_stored_seq1 :: persistent where
  "mutable_stored_seq1 =
     snd (onmutableput example_env empty_store (request_of [2, 3] (Some [1])))"

definition mutable_stored_seq2 :: persistent where
  "mutable_stored_seq2 =
     snd (onmutableput example_env empty_store (request_of [2, 3] (Some [4])))"

subsection \<open>Commands and validation failures\<close>

text \<open>
  Modelled from the spec: the registration of the handlers by command (section 6,
  \<open>onrequest(command, handler)\<close>) is not under src/. Each command of the store goes
  to the handler of its name. Refresh has no command of its own: it is an announce whose
  payload has a refresh token and no peer, and \<open>onannounce\<close> hands it to
  \<open>_onrefresh\<close>.
\<close>

datatype command =
    LOOKUP | FIND_PEER | ANNOUNCE | UNANNOUNCE
  | MUTABLE_GET | MUTABLE_PUT | IMMUTABLE_GET | IMMUTABLE_PUT

fun onrequest :: "env \<Rightarrow> command \<Rightarrow> persistent \<Rightarrow> request \<Rightarrow> outcome \<times> persistent" where
  "onrequest e LOOKUP s req = onlookup e s req"
| "onrequest e FIND_PEER s req = onfindpeer s req"
| "onrequest e ANNOUNCE s req = onannounce e s req"
| "onrequest e UNANNOUNCE s req = onunannounce e s req"
| "onrequest e MUTABLE_GET s req = onmutableget e s req"
| "onrequest e MUTABLE_PUT s req = onmutableput e s req"
| "onrequest e IMMUTABLE_GET s req = onimmutableget s req"
| "onrequest e IMMUTABLE_PUT s req = onimmutableput e s req"

text \<open>
  The validation failures of a request, one predicate for each kind. A kind applies to
  the commands that make the check: the token is needed by the four writing commands,
  a payload by every command but lookup, findPeer and immutable get, a peer by
  announce (unless the payload is a refresh) and unannounce, a signature by announce,
  unannounce and mutable put, a target hash by the two puts.
\<close>

definition missing_target :: "request \<Rightarrow> bool" where
  "missing_target req = (req_target req = None)"

fun missing_token :: "command \<Rightarrow> request \<Rightarrow> bool" where
  "missing_token ANNOUNCE req = (req_token req = None)"
| "missing_token UNANNOUNCE req = (req_token req = None)"
| "missing_token MUTABLE_PUT req = (req_token req = None)"
| "missing_token IMMUTABLE_PUT req = (req_token req = None)"
| "missing_token c req = False"

fun unparseable_payload :: "env \<Rightarrow> command \<Rightarrow> request \<Rightarrow> bool" where
  "unparseable_payload e ANNOUNCE req = (decode (decode_announce e) (req_value req) = None)"
| "unparseable_payload e UNANNOUNCE req = (decode (decode_announce e) (req_value req) = None)"
| "unparseable_payload e MUTABLE_PUT req =
     (decode (decode_mutablePutRequest e) (req_value req) = None)"
| "unparseable_payload e MUTABLE_GET req = (decode (decode_uint e) (req_value req) = None)"
| "unparseable_payload e IMMUTABLE_PUT req = (req_value req = None)"
| "unparseable_payload e c req = False"

text \<open>
  An announce payload that decodes to no peer. With a refresh token it is a refresh;
  with none there is nothing to announce, and \<open>onannounce\<close> means to return
  (\<open>if (!refresh) return\<close>). An unannounce payload always needs its peer.
\<close>

definition peerless :: "env \<Rightarrow> request \<Rightarrow> bool" where
  "peerless e req =
     (case decode (decode_announce e) (req_value req) of
        None \<Rightarrow> False
      | Some ann \<Rightarrow> ann_peer ann = None)"

definition refreshless :: "env \<Rightarrow> request \<Rightarrow> bool" where
  "refreshless e req =
     (case decode (decode_announce e) (req_value req) of
        None \<Rightarrow> False
      | Some ann \<Rightarrow> ann_refresh ann = None)"

fun missing_peer :: "env \<Rightarrow> command \<Rightarrow> request \<Rightarrow> bool" where
  "missing_peer e ANNOUNCE req = (peerless e req \<and> refreshless e req)"
| "missing_peer e UNANNOUNCE req = peerless e req"
| "missing_peer e c req = False"

text \<open>
  The signature of an announce or unannounce payload that carries a peer: missing, or
  not valid for the signable under the peer's public key.
\<close>

definition bad_announce_signature ::
  "env \<Rightarrow> persistent \<Rightarrow> buffer \<Rightarrow> request \<Rightarrow> bool" where
  "bad_announce_signature e s ns req =
     (case (req_target req, req_token req, decode (decode_announce e) (req_value req)) of
        (Some target, Some token, Some ann) \<Rightarrow>
          (case ann_peer ann of
             None \<Rightarrow> False
           | Some p \<Rightarrow>
               (case ann_signature ann of
                  None \<Rightarrow> True
                | Some sg \<Rightarrow>
                    \<not> crypto_sign_verify_detached e sg
                        (crypto_generichash_batch e
                           [target, dht_id s, token, encode_peer e p,
                            (case ann_refresh ann of None \<Rightarrow> [] | Some r \<Rightarrow> r)] ns)
                        (publicKey p)))
      | _ \<Rightarrow> False)"

definition bad_mutable_signature :: "env \<Rightarrow> request \<Rightarrow> bool" where
  "bad_mutable_signature e req =
     (case decode (decode_mutablePutRequest e) (req_value req) of
        None \<Rightarrow> False
      | Some p \<Rightarrow>
          (case mp_value p of
             None \<Rightarrow> True
           | Some v \<Rightarrow> \<not> verifyMutable e (mp_signature p) (mp_seq p) v (mp_publicKey p)))"

fun bad_signature :: "env \<Rightarrow> persistent \<Rightarrow> command \<Rightarrow> request \<Rightarrow> bool" where
  "bad_signature e s ANNOUNCE req = bad_announce_signature e s (NS_ANNOUNCE e) req"
| "bad_signature e s UNANNOUNCE req = bad_announce_signature e s (NS_UNANNOUNCE e) req"
| "bad_signature e s MUTABLE_PUT req = bad_mutable_signature e req"
| "bad_signature e s c req = False"

fun wrong_target_hash :: "env \<Rightarrow> command \<Rightarrow> request \<Rightarrow> bool" where
  "wrong_target_hash e MUTABLE_PUT req =
     (case decode (decode_mutablePutRequest e) (req_value req) of
        None \<Rightarrow> False
      | Some p \<Rightarrow> Some (crypto_generichash e (mp_publicKey p) None) \<noteq> req_target req)"
| "wrong_target_hash e IMMUTABLE_PUT req =
     (case req_value req of
        None \<Rightarrow> False
      | Some v \<Rightarrow> Some (crypto_generichash e v None) \<noteq> req_target req)"
| "wrong_target_hash e c req = False"

definition validation_failure :: "env \<Rightarrow> persistent \<Rightarrow> command \<Rightarrow> request \<Rightarrow> bool" where
  "validation_failure e s c req =
     (missing_target req \<or> missing_token c req \<or> unparseable_payload e c req
      \<or> missing_peer e c req \<or> bad_signature e s c req \<or> wrong_target_hash e c req)"

text \<open>
  The requests on which \<open>onannounce\<close> reaches \<open>annSignable\<close> with a null peer:
  target and token are there and the payload decodes to no peer.
\<close>

definition signs_null_peer :: "env \<Rightarrow> command \<Rightarrow> request \<Rightarrow> bool" where
  "signs_null_peer e c req =
     (c = ANNOUNCE \<and> req_target req \<noteq> None \<and> req_token req \<noteq> None \<and> peerless e req)"

text \<open>Stores with a refresh slot, and with a router entry and two cached announces.\<close>

definition example_refresh :: refresh_entry where
  "example_refresh = \<lparr>rf_k = ''0203'', rf_record = [1, 2, 1, 9], rf_announceSelf = True\<rparr>"

definition refresh_store :: persistent where
  "refresh_store =
     empty_store\<lparr>refreshes :=
       [toString_hex (crypto_generichash example_env [7] None) \<mapsto> example_refresh]\<rparr>"

definition lookup_store :: persistent where
  "lookup_store =
     empty_store
       \<lparr>dht_router :=
          [''0203'' \<mapsto> \<lparr>relay = example_from, fwd_record = [1, 2, 0],
                        onconnect = None, onholepunch = None\<rparr>],
        records := [(''0203'', [8], [8, 0]), (''0304'', [1, 2], [1, 2, 0])]\<rparr>"

section \<open>Connection establishment\<close>

text \<open>
  Modelled from the spec: the connector, the server and the hole-puncher (sections 4.2
  to 4.4) are not under src/; of them only the test \<open>server choosing to abort
  holepunch\<close> of \<open>test/connections.js\<close> is. The model is the state machine the
  spec draws. A connect attempt goes through the phases \<open>IDLE\<close>, \<open>LOOKING_UP\<close>,
  \<open>RELAYING\<close>, \<open>PUNCHING\<close>, \<open>OPEN\<close>, \<open>CLOSED\<close>; while punching, the
  hole-puncher goes through \<open>NEW\<close>, \<open>CLASSIFYING\<close>, \<open>NEGOTIATING\<close>,
  \<open>PROBING\<close>, \<open>LOCKED\<close>, with \<open>VETOED\<close> and \<open>TIMEOUT\<close> as the ways out.
  The lookup fails with \<open>PEER_NOT_FOUND\<close> when no record comes back. Either side's
  \<open>holepunch\<close> hook may veto before probing starts, which aborts with
  \<open>HOLEPUNCH_ABORTED\<close>; probing that locks no address pair ends in
  \<open>HOLEPUNCH_TIMEOUT\<close>. A failure is surfaced on the client's socket as an error
  followed by close. The server's connection callback fires when the stream opens.
\<close>

datatype puncher = NEW | CLASSIFYING | NEGOTIATING | PROBING | LOCKED | VETOED | TIMEOUT

datatype phase = IDLE | LOOKING_UP | RELAYING | PUNCHING puncher | OPEN | CLOSED

datatype connect_error = PEER_NOT_FOUND | HOLEPUNCH_ABORTED | HOLEPUNCH_TIMEOUT

datatype socket_event = Open_event | Error_event connect_error | Close_event

text \<open>What the surroundings of one attempt decide.\<close>

record conditions =
  record_found :: bool
  server_holepunch :: bool
  client_holepunch :: bool
  probe_locks :: bool

text \<open>
  An attempt: its phase, the events the client's socket has emitted (oldest first) and
  how often the server's \<open>onConnection\<close> has fired.
\<close>

record attempt =
  phase :: phase
  emitted :: "socket_event list"
  connections :: nat

definition fail_with :: "connect_error \<Rightarrow> attempt \<Rightarrow> attempt" where
  "fail_with err a = a\<lparr>phase := CLOSED, emitted := emitted a @ [Error_event err, Close_event]\<rparr>"

fun punch :: "conditions \<Rightarrow> puncher \<Rightarrow> attempt \<Rightarrow> attempt" where
  "punch c NEW a = a\<lparr>phase := PUNCHING CLASSIFYING\<rparr>"
| "punch c CLASSIFYING a = a\<lparr>phase := PUNCHING NEGOTIATING\<rparr>"
| "punch c NEGOTIATING a =
     (if server_holepunch c \<and> client_holepunch c
      then a\<lparr>phase := PUNCHING PROBING\<rparr> else a\<lparr>phase := PUNCHING VETOED\<rparr>)"
| "punch c PROBING a =
     (if probe_locks c then a\<lparr>phase := PUNCHING LOCKED\<rparr> else a\<lparr>phase := PUNCHING TIMEOUT\<rparr>)"
| "punch c LOCKED a =
     a\<lparr>phase := OPEN, emitted := emitted a @ [Open_event], connections := Suc (connections a)\<rparr>"
| "punch c VETOED a = fail_with HOLEPUNCH_ABORTED a"
| "punch c TIMEOUT a = fail_with HOLEPUNCH_TIMEOUT a"

definition step :: "conditions \<Rightarrow> attempt \<Rightarrow> attempt" where
  "step c a =
     (case phase a of
        IDLE \<Rightarrow> a\<lparr>phase := LOOKING_UP\<rparr>
      | LOOKING_UP \<Rightarrow> if record_found c then a\<lparr>phase := RELAYING\<rparr> else fail_with PEER_NOT_FOUND a
      | RELAYING \<Rightarrow> a\<lparr>phase := PUNCHING NEW\<rparr>
      | PUNCHING p \<Rightarrow> punch c p a
      | OPEN \<Rightarrow> a\<lparr>phase := CLOSED, emitted := emitted a @ [Close_event]\<rparr>
      | CLOSED \<Rightarrow> a)"

fun run :: "conditions \<Rightarrow> nat \<Rightarrow> attempt \<Rightarrow> attempt" where
  "run c 0 a = a"
| "run c (Suc n) a = run c n (step c a)"

definition connect :: attempt where
  "connect = \<lparr>phase = IDLE, emitted = [], connections = 0\<rparr>"

text \<open>The phases an attempt can be in before anything has been emitted or opened.\<close>

fun before_probing :: "phase \<Rightarrow> bool" where
  "before_probing IDLE = True"
| "before_probing LOOKING_UP = True"
| "before_probing RELAYING = True"
| "before_probing (PUNCHING NEW) = True"
| "before_probing (PUNCHING CLASSIFYING) = True"
| "before_probing (PUNCHING NEGOTIATING) = True"
| "before_probing (PUNCHING VETOED) = True"
| "before_probing p = False"

definition aborted :: attempt where
  "aborted =
     \<lparr>phase = CLOSED, emitted = [Error_event HOLEPUNCH_ABORTED, Close_event], connections = 0\<rparr>"

definition server_vetoes :: conditions where
  "server_vetoes =
     \<lparr>record_found = True, server_holepunch = False, client_holepunch = True,
      probe_locks = True\<rparr>"

text \<open>What holds of an attempt all along when the server's hook says no.\<close>

definition vetoed_inv :: "attempt \<Rightarrow> bool" where
  "vetoed_inv a =
     (a = aborted \<or> (before_probing (phase a) \<and> emitted a = [] \<and> connections a = 0))"

section \<open>Properties\<close>

subsection \<open>Hex names are faithful\<close>

lemma hexdigit_table:
  "\<forall>a\<in>set [0..<16]. \<forall>b\<in>set [0..<16]. hexdigit a = hexdigit b \<longrightarrow> a = b"
  by code_simp

lemma hexdigit_inj: "a < 16 \<Longrightarrow> b < 16 \<Longrightarrow> hexdigit a = hexdigit b \<Longrightarrow> a = b"
  using hexdigit_table by simp

lemma byte_nibbles:
  fixes x y :: "8 word"
  assumes "unat x div 16 = unat y div 16" and "unat x mod 16 = unat y mod 16"
  shows "x = y"
proof -
  have "unat x = unat y"
    using assms by (metis div_mult_mod_eq)
  then show ?thesis by (simp add: word_unat_eq_iff)
qed

lemma toString_hex_inject: "toString_hex a = toString_hex b \<Longrightarrow> a = b"
proof (induction a arbitrary: b)
  case Nil
  then show ?case by (cases b) simp_all
next
  case (Cons x xs)
  then obtain y ys where b: "b = y # ys" by (cases b) auto
  have lt: "unat x div 16 < 16" "unat y div 16 < 16" "unat x mod 16 < 16" "unat y mod 16 < 16"
    using unsigned_less[of x, where ?'a = nat] unsigned_less[of y, where ?'a = nat] by auto
  from Cons.prems b have d: "hexdigit (unat x div 16) = hexdigit (unat y div 16)"
    and m: "hexdigit (unat x mod 16) = hexdigit (unat y mod 16)"
    and r: "toString_hex xs = toString_hex ys" by simp_all
  have "x = y"
    using byte_nibbles hexdigit_inj[OF lt(1) lt(2) d] hexdigit_inj[OF lt(3) lt(4) m] by blast
  with Cons.IH[OF r] b show ?case by simp
qed

lemma toString_hex_0203: "toString_hex [2, 3] = ''0203''"
  by code_simp

subsection \<open>Immutable values\<close>

lemma immutable_stored_eq:
  "immutable_stored = empty_store\<lparr>immutables := [''0203'' \<mapsto> [1, 2]]\<rparr>"
  by (simp add: immutable_stored_def onimmutableput_def example_env_def request_of_def
      empty_store_def toString_hex_0203 del: toString_hex.simps)

text \<open>
  C7, as amended. With target, token and value present, an immutable put is accepted
  exactly when the hash of the value is the target: the value is then stored under the
  target, a reply is sent, and a get for the target returns the value. When the hash
  differs the request is dropped with no reply and the store is left as it was, so a
  later get for the target answers what it would have answered before the put: null
  when nothing was stored under that target.
\<close>

theorem onimmutableput_accepts_iff_hash:
  assumes "req_target req = Some target" and "req_token req = Some token"
    and "req_value req = Some v" and "req_target greq = Some target"
  shows "(crypto_generichash e v None = target \<longrightarrow>
            onimmutableput e s req =
              (Replied None None, s\<lparr>immutables := (immutables s)(toString_hex target \<mapsto> v)\<rparr>)
            \<and> fst (onimmutableget (snd (onimmutableput e s req)) greq) = Replied (Some v) None)
       \<and> (crypto_generichash e v None \<noteq> target \<longrightarrow>
            onimmutableput e s req = (Dropped, s)
            \<and> onimmutableget (snd (onimmutableput e s req)) greq = onimmutableget s greq
            \<and> (immutables s (toString_hex target) = None \<longrightarrow>
                 fst (onimmutableget (snd (onimmutableput e s req)) greq) = Replied None None))"
  using assms by (simp add: onimmutableput_def onimmutableget_def Let_def)

theorem onimmutableput_accepts_iff_hash_witness:
  "onimmutableput example_env empty_store (request_of [2, 3] (Some [1, 2])) =
     (Replied None None,
      empty_store\<lparr>immutables := (immutables empty_store)(toString_hex [2, 3] \<mapsto> [1, 2])\<rparr>)
   \<and> fst (onimmutableget
            (snd (onimmutableput example_env empty_store (request_of [2, 3] (Some [1, 2]))))
            (request_of [2, 3] None)) = Replied (Some [1, 2]) None"
proof -
  have h: "crypto_generichash example_env [1, 2] None = [2, 3]"
    by (simp add: example_env_def)
  have "req_target (request_of [2, 3] (Some [1, 2])) = Some [2, 3]"
    and "req_token (request_of [2, 3] (Some [1, 2])) = Some [7]"
    and "req_value (request_of [2, 3] (Some [1, 2])) = Some [1, 2]"
    and "req_target (request_of [2, 3] None) = Some [2, 3]"
    by (simp_all add: request_of_def)
  from onimmutableput_accepts_iff_hash [OF this, of example_env empty_store] h
  show ?thesis
    by blast
qed

text \<open>
  The claim as written fails where a value is already stored under the target: the
  mismatching put is dropped, and the get that follows returns the stored value, not
  null.
\<close>

theorem immutable_get_after_dropped_put_counterexample:
  "crypto_generichash example_env [5] None \<noteq> [2, 3]
   \<and> onimmutableput example_env immutable_stored (request_of [2, 3] (Some [5])) =
       (Dropped, immutable_stored)
   \<and> fst (onimmutableget
            (snd (onimmutableput example_env immutable_stored (request_of [2, 3] (Some [5]))))
            (request_of [2, 3] None)) = Replied (Some [1, 2]) None"
  by (simp add: immutable_stored_eq onimmutableput_def onimmutableget_def example_env_def
      request_of_def empty_store_def toString_hex_0203 del: toString_hex.simps)

subsection \<open>Mutable values\<close>

lemma mutable_stored_seq1_eq:
  "mutable_stored_seq1 = empty_store\<lparr>mutables := [''0203'' \<mapsto> [1, 1, 98, 2, 99, 3]]\<rparr>"
  by (simp add: mutable_stored_seq1_def onmutableput_def example_env_def request_of_def
      empty_store_def decode_def example_decode_mutablePutRequest_def verifyMutable_def
      toString_hex_0203 del: toString_hex.simps)

lemma mutable_stored_seq2_eq:
  "mutable_stored_seq2 = empty_store\<lparr>mutables := [''0203'' \<mapsto> [2, 1, 97, 3, 98, 3]]\<rparr>"
  by (simp add: mutable_stored_seq2_def onmutableput_def example_env_def request_of_def
      empty_store_def decode_def example_decode_mutablePutRequest_def verifyMutable_def
      toString_hex_0203 del: toString_hex.simps)

text \<open>
  Whatever the encoder returns for the stored Buffer, the result has neither a
  \<open>value\<close> nor a \<open>seq\<close>: the block under \<open>if (local)\<close> either throws inside the
  encoder or falls through to the store.
\<close>

lemma check_existing_cases:
  "check_existing e local seq v =
     (case encode_mutableGetResponse_Buffer e local of None \<Rightarrow> Some Threw | Some b \<Rightarrow> None)"
  by (simp add: check_existing_def Buffer_prop_def split: option.splits)

lemma onmutableput_never_Errored: "fst (onmutableput e s req) \<noteq> Errored c"
  by (simp add: onmutableput_def check_existing_cases Let_def
      split: option.splits prod.splits)

text \<open>
  A put that passes the checks against a key that holds a record: the stored record is
  never decoded and nothing is compared. The handler leaves through the exception of
  the encoder, or, should the encoder return, stores the put whatever its seq and value.
\<close>

lemma onmutableput_existing:
  assumes "req_target req = Some target" and "req_token req = Some token"
    and "req_value req = Some rv"
    and "decode_mutablePutRequest e rv = Some p"
    and "crypto_generichash e (mp_publicKey p) None = target"
    and "mp_value p = Some v"
    and "verifyMutable e (mp_signature p) (mp_seq p) v (mp_publicKey p)"
    and "mutables s (toString_hex target) = Some local"
  shows "onmutableput e s req =
           (case encode_mutableGetResponse_Buffer e local of
              None \<Rightarrow> (Threw, s)
            | Some existing \<Rightarrow>
                (Replied None None,
                 s\<lparr>mutables := (mutables s)(toString_hex target \<mapsto>
                     encode_mutableGetResponse e
                       \<lparr>mg_seq = mp_seq p, mg_value = v, mg_signature = mp_signature p\<rparr>)\<rparr>))"
  using assms
  by (simp add: onmutableput_def check_existing_cases decode_def Let_def split: option.splits)

text \<open>
  C2. The claim asks for \<open>SEQ_REUSED\<close> on an equal seq with another value and for
  \<open>SEQ_TOO_LOW\<close> on a lower seq. The handler sends neither. First run: the store
  holds seq 1 with value \<open>[98]\<close>, the put carries seq 1 with value \<open>[97]\<close> and a
  valid signature. Second run: the store holds seq 2, the put carries seq 1 and a valid
  signature. Both leave through the exception of the encoder, with no typed error and
  no reply. And for every environment, store and request the handler never answers with
  a typed error.
\<close>

theorem onmutableput_conflicts_not_rejected:
  "onmutableput example_env mutable_stored_seq1 (request_of [2, 3] (Some [2])) =
     (Threw, mutable_stored_seq1)
   \<and> onmutableput example_env mutable_stored_seq2 (request_of [2, 3] (Some [1])) =
     (Threw, mutable_stored_seq2)
   \<and> mutables mutable_stored_seq1 ''0203'' = Some [1, 1, 98, 2, 99, 3]
   \<and> mutables mutable_stored_seq2 ''0203'' = Some [2, 1, 97, 3, 98, 3]
   \<and> decode_uint example_env [2, 1, 97, 3, 98, 3] = Some 2
   \<and> fst (onmutableput e s req) \<noteq> Errored code"
proof -
  have "onmutableput example_env mutable_stored_seq1 (request_of [2, 3] (Some [2])) =
          (Threw, mutable_stored_seq1)"
    and "onmutableput example_env mutable_stored_seq2 (request_of [2, 3] (Some [1])) =
          (Threw, mutable_stored_seq2)"
    and "mutables mutable_stored_seq1 ''0203'' = Some [1, 1, 98, 2, 99, 3]"
    and "mutables mutable_stored_seq2 ''0203'' = Some [2, 1, 97, 3, 98, 3]"
    and "decode_uint example_env [2, 1, 97, 3, 98, 3] = Some 2"
    by (simp_all add: mutable_stored_seq1_eq mutable_stored_seq2_eq onmutableput_def
        check_existing_cases example_env_def request_of_def empty_store_def decode_def
        example_decode_mutablePutRequest_def verifyMutable_def toString_hex_0203
        del: toString_hex.simps)
  moreover have "fst (onmutableput e s req) \<noteq> Errored code"
    by (rule onmutableput_never_Errored)
  ultimately show ?thesis by blast
qed

text \<open>
  C10. The claim asks that a put carrying the seq and the value of the record already
  stored under its key, with a valid signature and the matching target, is accepted and
  replied to. The handler does not get that far. The store holds seq 1 with value
  \<open>[98]\<close>; the put decodes to the same public key, seq 1 and value \<open>[98]\<close>, its
  signature verifies and its target is the hash of the key. The handler leaves through
  the exception of the encoder: no reply, the store as it was.
\<close>

theorem onmutableput_identical_put_throws:
  "mutables mutable_stored_seq1 (toString_hex [2, 3]) =
     Some (encode_mutableGetResponse example_env
             \<lparr>mg_seq = 1, mg_value = [98], mg_signature = [2, 99, 3]\<rparr>)
   \<and> decode_mutablePutRequest example_env [1] =
       Some \<lparr>mp_publicKey = [1, 2], mp_seq = 1, mp_value = Some [98],
             mp_signature = [2, 99, 3]\<rparr>
   \<and> crypto_generichash example_env [1, 2] None = [2, 3]
   \<and> verifyMutable example_env [2, 99, 3] 1 [98] [1, 2]
   \<and> onmutableput example_env mutable_stored_seq1 (request_of [2, 3] (Some [1])) =
       (Threw, mutable_stored_seq1)"
  by (simp add: mutable_stored_seq1_eq onmutableput_def check_existing_cases example_env_def
      request_of_def empty_store_def decode_def example_decode_mutablePutRequest_def
      verifyMutable_def toString_hex_0203 del: toString_hex.simps)

subsection \<open>Announce\<close>

lemma records_lookup_remove: "records_lookup (records_remove c name key) name key = None"
  by (induction c) (auto simp: records_lookup_def records_remove_def)

lemma records_lookup_append_new:
  "records_lookup c name key = None \<Longrightarrow> records_lookup (c @ [(name, key, v)]) name key = Some v"
  by (induction c) (auto simp: records_lookup_def split: if_splits)

lemma records_lookup_add: "records_lookup (records_add c name key v) name key = Some v"
  by (simp add: records_add_def records_lookup_append_new records_lookup_remove)

lemma truncate_relayAddresses_props:
  "length (relayAddresses (truncate_relayAddresses p)) \<le> 3"
  "relayAddresses (truncate_relayAddresses p) = take 3 (relayAddresses p)"
  "publicKey (truncate_relayAddresses p) = publicKey p"
  by (simp_all add: truncate_relayAddresses_def)

lemma annSignable_peer:
  "ann_peer ann = Some p \<Longrightarrow>
   annSignable e target token ident ann ns =
     Some (crypto_generichash_batch e
             [target, ident, token, encode_peer e p,
              (case ann_refresh ann of None \<Rightarrow> [] | Some r \<Rightarrow> r)] ns)"
  by (simp add: annSignable_def)

lemma onannounce_unverified:
  assumes "req_target req = Some target" and "req_token req = Some token"
    and "decode (decode_announce e) (req_value req) = Some ann" and "ann_peer ann = Some p0"
    and "\<not> (case ann_signature ann of None \<Rightarrow> False
            | Some sg \<Rightarrow> crypto_sign_verify_detached e sg
                (crypto_generichash_batch e
                   [target, dht_id s, token, encode_peer e p0,
                    (case ann_refresh ann of None \<Rightarrow> [] | Some r \<Rightarrow> r)] (NS_ANNOUNCE e))
                (publicKey p0))"
  shows "onannounce e s req = (Dropped, s)"
  using assms by (simp add: onannounce_def annSignable_peer split: option.splits)

lemma onannounce_verified:
  assumes "req_target req = Some target" and "req_token req = Some token"
    and "decode (decode_announce e) (req_value req) = Some ann" and "ann_peer ann = Some p0"
    and "ann_signature ann = Some sg"
    and "crypto_sign_verify_detached e sg
                (crypto_generichash_batch e
                   [target, dht_id s, token, encode_peer e p0,
                    (case ann_refresh ann of None \<Rightarrow> [] | Some r \<Rightarrow> r)] (NS_ANNOUNCE e))
                (publicKey p0)"
  shows "fst (onannounce e s req) = Replied None no_token_no_closer"
    and "crypto_generichash e (publicKey p0) None = target \<Longrightarrow>
         dht_router (snd (onannounce e s req)) =
           router_set (dht_router s) (KString (toString_hex target))
             \<lparr>relay = req_from req, fwd_record = encode_peer e (truncate_relayAddresses p0),
              onconnect = None, onholepunch = None\<rparr>"
    and "crypto_generichash e (publicKey p0) None = target \<Longrightarrow>
         records (snd (onannounce e s req)) =
           records_remove (records s) (toString_hex target) (publicKey p0)"
    and "crypto_generichash e (publicKey p0) None \<noteq> target \<Longrightarrow>
         dht_router (snd (onannounce e s req)) = dht_router s"
    and "crypto_generichash e (publicKey p0) None \<noteq> target \<Longrightarrow>
         records (snd (onannounce e s req)) =
           records_add (records s) (toString_hex target) (publicKey p0)
             (encode_peer e (truncate_relayAddresses p0))"
  using assms
  by (simp_all add: onannounce_def annSignable_peer Let_def truncate_relayAddresses_props
      split: option.splits)

text \<open>
  C1. For an announce request with a target, a token and a payload that decodes to an
  announce with a peer: unless the signature is present and verifies over the announce
  signable under the peer's public key, the handler returns without a reply and leaves
  the store as it was. When it verifies, the handler replies; the stored record is the
  encoding of the peer with its relay addresses cut to the first three; if the hash of
  the public key is the target, the record becomes the router entry of the target with
  \<open>relay = req.from\<close> and the pair of target and public key is removed from the
  announce cache; otherwise the record is added to the announce cache under that pair
  and the router is unchanged.
\<close>

theorem onannounce_stores_verified_record:
  assumes "req_target req = Some target" and "req_token req = Some token"
    and "decode (decode_announce e) (req_value req) = Some ann" and "ann_peer ann = Some p0"
    and "signable = crypto_generichash_batch e
                      [target, dht_id s, token, encode_peer e p0,
                       (case ann_refresh ann of None \<Rightarrow> [] | Some r \<Rightarrow> r)] (NS_ANNOUNCE e)"
    and "verified = (case ann_signature ann of None \<Rightarrow> False
                     | Some sg \<Rightarrow> crypto_sign_verify_detached e sg signable (publicKey p0))"
    and "p = truncate_relayAddresses p0" and "k = toString_hex target"
    and "s' = snd (onannounce e s req)"
  shows "(\<not> verified \<longrightarrow> onannounce e s req = (Dropped, s))
       \<and> (verified \<longrightarrow>
            fst (onannounce e s req) = Replied None no_token_no_closer
            \<and> length (relayAddresses p) \<le> 3
            \<and> relayAddresses p = take 3 (relayAddresses p0)
            \<and> publicKey p = publicKey p0
            \<and> (crypto_generichash e (publicKey p0) None = target \<longrightarrow>
                 router_get (dht_router s') (KString k) =
                   Some \<lparr>relay = req_from req, fwd_record = encode_peer e p,
                         onconnect = None, onholepunch = None\<rparr>
                 \<and> records s' = records_remove (records s) k (publicKey p0)
                 \<and> records_lookup (records s') k (publicKey p0) = None)
            \<and> (crypto_generichash e (publicKey p0) None \<noteq> target \<longrightarrow>
                 records s' = records_add (records s) k (publicKey p0) (encode_peer e p)
                 \<and> records_lookup (records s') k (publicKey p0) = Some (encode_peer e p)
                 \<and> dht_router s' = dht_router s))"
proof (intro conjI impI)
  assume "\<not> verified"
  then have "\<not> (case ann_signature ann of None \<Rightarrow> False
            | Some sg \<Rightarrow> crypto_sign_verify_detached e sg
                (crypto_generichash_batch e
                   [target, dht_id s, token, encode_peer e p0,
                    (case ann_refresh ann of None \<Rightarrow> [] | Some r \<Rightarrow> r)] (NS_ANNOUNCE e))
                (publicKey p0))"
    unfolding assms(6) assms(5) .
  then show "onannounce e s req = (Dropped, s)"
    by (rule onannounce_unverified[OF assms(1-4)])
next
  assume v: verified
  then obtain sg where sg: "ann_signature ann = Some sg"
    and ok: "crypto_sign_verify_detached e sg
                (crypto_generichash_batch e
                   [target, dht_id s, token, encode_peer e p0,
                    (case ann_refresh ann of None \<Rightarrow> [] | Some r \<Rightarrow> r)] (NS_ANNOUNCE e))
                (publicKey p0)"
    unfolding assms(6) assms(5) by (auto split: option.splits)
  note f = onannounce_verified[OF assms(1-4) sg ok]
  show "fst (onannounce e s req) = Replied None no_token_no_closer" by (rule f(1))
  show "length (relayAddresses p) \<le> 3" "relayAddresses p = take 3 (relayAddresses p0)"
    "publicKey p = publicKey p0"
    using assms(7) by (simp_all add: truncate_relayAddresses_props)
  {
    assume h: "crypto_generichash e (publicKey p0) None = target"
    show "router_get (dht_router s') (KString k) =
            Some \<lparr>relay = req_from req, fwd_record = encode_peer e p,
                  onconnect = None, onholepunch = None\<rparr>"
      using f(2)[OF h] assms(7-9) by (simp add: router_get_def router_set_def)
    show r: "records s' = records_remove (records s) k (publicKey p0)"
      using f(3)[OF h] assms(7-9) by simp
    show "records_lookup (records s') k (publicKey p0) = None"
      by (simp add: r records_lookup_remove)
  }
  {
    assume h: "crypto_generichash e (publicKey p0) None \<noteq> target"
    show r: "records s' = records_add (records s) k (publicKey p0) (encode_peer e p)"
      using f(5)[OF h] assms(7-9) by simp
    show "records_lookup (records s') k (publicKey p0) = Some (encode_peer e p)"
      by (simp add: r records_lookup_add)
    show "dht_router s' = dht_router s"
      using f(4)[OF h] assms(9) by simp
  }
qed


theorem onannounce_stores_verified_record_witness:
  "fst (onannounce example_env empty_store (request_of [2, 3] (Some [1]))) =
     Replied None no_token_no_closer
   \<and> length (relayAddresses (truncate_relayAddresses example_peer)) \<le> 3
   \<and> router_get (dht_router (snd (onannounce example_env empty_store
                                     (request_of [2, 3] (Some [1])))))
         (KString (toString_hex [2, 3])) =
       Some \<lparr>relay = req_from (request_of [2, 3] (Some [1])),
             fwd_record = encode_peer example_env (truncate_relayAddresses example_peer),
             onconnect = None, onholepunch = None\<rparr>
   \<and> records_lookup (records (snd (onannounce example_env empty_store
                                      (request_of [2, 3] (Some [1])))))
         (toString_hex [2, 3]) (publicKey example_peer) = None"
proof -
  let ?ann = "\<lparr>ann_peer = Some example_peer, ann_refresh = None,
                ann_signature = Some [2, 3, 9, 7, 1, 2, 4, 1, 2, 3, 4, 100]\<rparr>"
  have h: "req_target (request_of [2, 3] (Some [1])) = Some [2, 3]"
    "req_token (request_of [2, 3] (Some [1])) = Some [7]"
    "decode (decode_announce example_env) (req_value (request_of [2, 3] (Some [1]))) = Some ?ann"
    "ann_peer ?ann = Some example_peer"
    by (simp_all add: request_of_def decode_def example_env_def example_decode_announce_def)
  have v: "(case ann_signature ?ann of None \<Rightarrow> False
            | Some sg \<Rightarrow> crypto_sign_verify_detached example_env sg
                (crypto_generichash_batch example_env
                   [[2, 3], dht_id empty_store, [7], encode_peer example_env example_peer,
                    (case ann_refresh ?ann of None \<Rightarrow> [] | Some r \<Rightarrow> r)]
                   (NS_ANNOUNCE example_env))
                (publicKey example_peer))"
    by (simp add: example_env_def empty_store_def example_encode_peer_def example_peer_def)
  have self: "crypto_generichash example_env (publicKey example_peer) None = [2, 3]"
    by (simp add: example_env_def example_peer_def)
  from onannounce_stores_verified_record [OF h refl refl refl refl refl] v self
  show ?thesis by blast
qed

subsection \<open>findPeer and lookup\<close>

text \<open>
  C3. A findPeer request with a target is answered with the record of the router entry
  of that target when there is one, and with null otherwise; after an accepted
  self-announce for the target the answer is the record that announce stored.
\<close>

theorem onfindpeer_replies_router_record:
  assumes "req_target req = Some target"
  shows "(\<forall>f. router_get (dht_router s) (KBuffer target) = Some f \<longrightarrow>
            onfindpeer s req = (Replied (Some (fwd_record f)) None, s))
       \<and> (router_get (dht_router s) (KBuffer target) = None \<longrightarrow>
            onfindpeer s req = (Replied None None, s))
       \<and> (req_target areq = Some target \<and> req_token areq = Some token
            \<and> decode (decode_announce e) (req_value areq) = Some ann
            \<and> ann_peer ann = Some p0 \<and> ann_signature ann = Some sg
            \<and> crypto_sign_verify_detached e sg
                (crypto_generichash_batch e
                   [target, dht_id s, token, encode_peer e p0,
                    (case ann_refresh ann of None \<Rightarrow> [] | Some r \<Rightarrow> r)] (NS_ANNOUNCE e))
                (publicKey p0)
            \<and> crypto_generichash e (publicKey p0) None = target \<longrightarrow>
            fst (onfindpeer (snd (onannounce e s areq)) req) =
              Replied (Some (encode_peer e (truncate_relayAddresses p0))) None)"
proof (intro conjI allI impI)
  fix f assume "router_get (dht_router s) (KBuffer target) = Some f"
  with assms show "onfindpeer s req = (Replied (Some (fwd_record f)) None, s)"
    by (simp add: onfindpeer_def)
next
  assume "router_get (dht_router s) (KBuffer target) = None"
  with assms show "onfindpeer s req = (Replied None None, s)"
    by (simp add: onfindpeer_def)
next
  assume a: "req_target areq = Some target \<and> req_token areq = Some token
            \<and> decode (decode_announce e) (req_value areq) = Some ann
            \<and> ann_peer ann = Some p0 \<and> ann_signature ann = Some sg
            \<and> crypto_sign_verify_detached e sg
                (crypto_generichash_batch e
                   [target, dht_id s, token, encode_peer e p0,
                    (case ann_refresh ann of None \<Rightarrow> [] | Some r \<Rightarrow> r)] (NS_ANNOUNCE e))
                (publicKey p0)
            \<and> crypto_generichash e (publicKey p0) None = target"
  then have "dht_router (snd (onannounce e s areq)) =
           router_set (dht_router s) (KString (toString_hex target))
             \<lparr>relay = req_from areq, fwd_record = encode_peer e (truncate_relayAddresses p0),
              onconnect = None, onholepunch = None\<rparr>"
    by (intro onannounce_verified(2)[where token = token and ann = ann and sg = sg]) simp_all
  with assms show "fst (onfindpeer (snd (onannounce e s areq)) req) =
              Replied (Some (encode_peer e (truncate_relayAddresses p0))) None"
    by (simp add: onfindpeer_def router_get_def router_set_def)
qed

theorem onfindpeer_replies_router_record_witness:
  "onfindpeer empty_store (request_of [2, 3] None) = (Replied None None, empty_store)
   \<and> fst (onfindpeer (snd (onannounce example_env empty_store (request_of [2, 3] (Some [1]))))
            (request_of [2, 3] None)) =
       Replied (Some (encode_peer example_env (truncate_relayAddresses example_peer))) None"
proof -
  let ?ann = "\<lparr>ann_peer = Some example_peer, ann_refresh = None,
                ann_signature = Some [2, 3, 9, 7, 1, 2, 4, 1, 2, 3, 4, 100]\<rparr>"
  have t: "req_target (request_of [2, 3] None) = Some [2, 3]"
    by (simp add: request_of_def)
  have n: "router_get (dht_router empty_store) (KBuffer [2, 3]) = None"
    by (simp add: router_get_def empty_store_def)
  have a: "req_target (request_of [2, 3] (Some [1])) = Some [2, 3]
     \<and> req_token (request_of [2, 3] (Some [1])) = Some [7]
     \<and> decode (decode_announce example_env) (req_value (request_of [2, 3] (Some [1]))) = Some ?ann
     \<and> ann_peer ?ann = Some example_peer
     \<and> ann_signature ?ann = Some [2, 3, 9, 7, 1, 2, 4, 1, 2, 3, 4, 100]
     \<and> crypto_sign_verify_detached example_env [2, 3, 9, 7, 1, 2, 4, 1, 2, 3, 4, 100]
         (crypto_generichash_batch example_env
            [[2, 3], dht_id empty_store, [7], encode_peer example_env example_peer,
             (case ann_refresh ?ann of None \<Rightarrow> [] | Some r \<Rightarrow> r)] (NS_ANNOUNCE example_env))
         (publicKey example_peer)
     \<and> crypto_generichash example_env (publicKey example_peer) None = [2, 3]"
    by (simp add: request_of_def decode_def example_env_def example_decode_announce_def
        empty_store_def example_encode_peer_def example_peer_def)
  from onfindpeer_replies_router_record [OF t, of empty_store] n a
  show ?thesis by blast
qed

lemma records_get_length: "length (records_get c name n) \<le> n"
  by (simp add: records_get_def)

lemma records_get_subset:
  "set (records_get c name n) \<subseteq> {v. \<exists>key. (name, key, v) \<in> set c}"
proof
  fix v assume "v \<in> set (records_get c name n)"
  then have "v \<in> set (map (\<lambda>(n, k, v). v) (filter (\<lambda>(n, k, v). n = name) c))"
    unfolding records_get_def by (rule in_set_takeD)
  then show "v \<in> {v. \<exists>key. (name, key, v) \<in> set c}" by auto
qed

text \<open>
  C4. A lookup request with a target is answered with at most 20 records: the up to 20
  records the announce cache returns for the target, followed by the record of the
  router entry of the target only when the cache returned fewer than 20; when there is
  no record at all the payload of the reply is null.
\<close>

theorem onlookup_replies_at_most_20:
  assumes "req_target req = Some target"
    and "k = toString_hex target"
    and "lru = records_get (records s) k 20"
    and "fwd = router_get (dht_router s) (KString k)"
  shows "\<exists>recs. onlookup e s req =
                  (Replied (if recs = [] then None else Some (encode_rawArray e recs)) None, s)
           \<and> length recs \<le> 20
           \<and> length lru \<le> 20
           \<and> set lru \<subseteq> {v. \<exists>key. (k, key, v) \<in> set (records s)}
           \<and> (\<forall>f. fwd = Some f \<and> length lru < 20 \<longrightarrow> recs = lru @ [fwd_record f])
           \<and> (fwd = None \<or> \<not> length lru < 20 \<longrightarrow> recs = lru)
           \<and> (recs = [] \<longleftrightarrow> lru = [] \<and> fwd = None)"
proof -
  let ?recs = "case fwd of None \<Rightarrow> lru
               | Some f \<Rightarrow> if length lru < 20 then lru @ [fwd_record f] else lru"
  have len: "length lru \<le> 20"
    using assms(3) by (simp add: records_get_length)
  have "onlookup e s req =
          (Replied (if ?recs = [] then None else Some (encode_rawArray e ?recs)) None, s)"
    using assms by (simp add: onlookup_def Let_def split: option.splits)
  moreover have "length ?recs \<le> 20"
    using len by (simp split: option.splits)
  moreover have "set lru \<subseteq> {v. \<exists>key. (k, key, v) \<in> set (records s)}"
    unfolding assms(3) by (rule records_get_subset)
  moreover have "\<forall>f. fwd = Some f \<and> length lru < 20 \<longrightarrow> ?recs = lru @ [fwd_record f]"
    by simp
  moreover have "fwd = None \<or> \<not> length lru < 20 \<longrightarrow> ?recs = lru"
    by (simp split: option.splits)
  moreover have "?recs = [] \<longleftrightarrow> lru = [] \<and> fwd = None"
    by (auto split: option.splits)
  ultimately show ?thesis using len by blast
qed

theorem onlookup_replies_at_most_20_witness:
  "onlookup example_env lookup_store (request_of [2, 3] None) =
     (Replied (Some (encode_rawArray example_env [[8, 0], [1, 2, 0]])) None, lookup_store)"
proof -
  have t: "req_target (request_of [2, 3] None) = Some [2, 3]"
    by (simp add: request_of_def)
  have lru: "records_get (records lookup_store) (toString_hex [2, 3]) 20 = [[8, 0]]"
    by (simp add: lookup_store_def records_get_def empty_store_def toString_hex_0203
        del: toString_hex.simps)
  have fwd: "router_get (dht_router lookup_store) (KString (toString_hex [2, 3])) =
               Some \<lparr>relay = example_from, fwd_record = [1, 2, 0],
                     onconnect = None, onholepunch = None\<rparr>"
    by (simp add: lookup_store_def router_get_def empty_store_def toString_hex_0203
        del: toString_hex.simps)
  from onlookup_replies_at_most_20 [OF t refl refl refl, of example_env lookup_store]
  obtain recs where
    r: "onlookup example_env lookup_store (request_of [2, 3] None) =
          (Replied (if recs = [] then None else Some (encode_rawArray example_env recs)) None,
           lookup_store)"
    and a: "\<forall>f. router_get (dht_router lookup_store) (KString (toString_hex [2, 3])) = Some f
               \<and> length (records_get (records lookup_store) (toString_hex [2, 3]) 20) < 20 \<longrightarrow>
             recs = records_get (records lookup_store) (toString_hex [2, 3]) 20 @ [fwd_record f]"
    by blast
  from a lru fwd have "recs = [[8, 0], [1, 2, 0]]"
    by simp
  with r show ?thesis by simp
qed

subsection \<open>Refresh and unannounce\<close>

lemma onrefresh_known:
  assumes "refreshes s (toString_hex (crypto_generichash e t None)) = Some r"
  shows "onrefresh e s t req =
           (Replied None no_token_no_closer,
            (if rf_announceSelf r
             then s\<lparr>dht_router :=
                      router_set (dht_router s) (KString (rf_k r))
                        \<lparr>relay = req_from req, fwd_record = rf_record r,
                         onconnect = None, onholepunch = None\<rparr>,
                    records := records_remove (records s) (rf_k r) (take 32 (rf_record r))\<rparr>
             else s\<lparr>records :=
                      records_add (records s) (rf_k r) (take 32 (rf_record r)) (rf_record r)\<rparr>)
            \<lparr>refreshes :=
               ((refreshes s)(toString_hex (crypto_generichash e t None) := None))
                 (toString_hex t \<mapsto> r)\<rparr>)"
  using assms by (simp add: onrefresh_def Let_def)

text \<open>
  What \<open>_onrefresh\<close> does once it is called with a token \<open>t\<close>. When the hash
  of \<open>t\<close>, in hex, names a slot of the refresh cache, it replies; the stored record
  is installed again, in the router when the entry is marked \<open>announceSelf\<close> and in
  the announce cache otherwise; the slot named by the hash is deleted and the same entry
  is bound under the hex of \<open>t\<close> itself; no signature is verified. When the hash
  names no slot it changes nothing and sends no reply.
\<close>

lemma onrefresh_direct:
  assumes "h = toString_hex (crypto_generichash e t None)"
    and "s' = snd (onrefresh e s t req)"
  shows "(refreshes s h = Some r \<longrightarrow>
            fst (onrefresh e s t req) = Replied None no_token_no_closer
            \<and> refreshes s' = ((refreshes s)(h := None))(toString_hex t \<mapsto> r)
            \<and> refreshes s' (toString_hex t) = Some r
            \<and> (crypto_generichash e t None \<noteq> t \<longrightarrow> refreshes s' h = None)
            \<and> (rf_announceSelf r \<longrightarrow>
                 router_get (dht_router s') (KString (rf_k r)) =
                   Some \<lparr>relay = req_from req, fwd_record = rf_record r,
                         onconnect = None, onholepunch = None\<rparr>
                 \<and> records s' = records_remove (records s) (rf_k r) (take 32 (rf_record r)))
            \<and> (\<not> rf_announceSelf r \<longrightarrow>
                 records_lookup (records s') (rf_k r) (take 32 (rf_record r)) =
                   Some (rf_record r)
                 \<and> dht_router s' = dht_router s))
       \<and> (refreshes s h = None \<longrightarrow> onrefresh e s t req = (Dropped, s))
       \<and> onrefresh (e\<lparr>crypto_sign_verify_detached := vf\<rparr>) s t req = onrefresh e s t req"
proof (intro conjI impI)
  assume k: "refreshes s h = Some r"
  note f = onrefresh_known[OF k[unfolded assms(1)], of req]
  show "fst (onrefresh e s t req) = Replied None no_token_no_closer"
    by (simp add: f)
  show "refreshes s' = ((refreshes s)(h := None))(toString_hex t \<mapsto> r)"
    by (simp add: assms f)
  then show "refreshes s' (toString_hex t) = Some r" by simp
  {
    assume "crypto_generichash e t None \<noteq> t"
    then have "h \<noteq> toString_hex t"
      using assms(1) toString_hex_inject[of "crypto_generichash e t None" t] by auto
    then show "refreshes s' h = None"
      by (simp add: assms f)
  }
  {
    assume a: "rf_announceSelf r"
    show "router_get (dht_router s') (KString (rf_k r)) =
            Some \<lparr>relay = req_from req, fwd_record = rf_record r,
                  onconnect = None, onholepunch = None\<rparr>"
      by (simp add: assms(2) f a router_get_def router_set_def)
    show "records s' = records_remove (records s) (rf_k r) (take 32 (rf_record r))"
      by (simp add: assms(2) f a)
  }
  {
    assume a: "\<not> rf_announceSelf r"
    show "records_lookup (records s') (rf_k r) (take 32 (rf_record r)) = Some (rf_record r)"
      by (simp add: assms(2) f a records_lookup_add)
    show "dht_router s' = dht_router s"
      by (simp add: assms(2) f a)
  }
next
  assume "refreshes s h = None"
  then show "onrefresh e s t req = (Dropped, s)"
    by (simp add: onrefresh_def assms(1))
next
  show "onrefresh (e\<lparr>crypto_sign_verify_detached := vf\<rparr>) s t req = onrefresh e s t req"
    by (simp add: onrefresh_def)
qed

text \<open>
  A refresh request is an announce request whose payload decodes to no peer. On it
  \<open>onannounce\<close> computes the signable first, which encodes the null peer, and looks
  at the peer only afterwards: \<open>_onrefresh\<close> is reached only if that encoding
  returns.
\<close>

lemma onannounce_peerless:
  assumes "req_target req = Some target" and "req_token req = Some token"
    and "decode (decode_announce e) (req_value req) = Some ann" and "ann_peer ann = None"
  shows "onannounce e s req =
           (case encode_peer_null e of
              None \<Rightarrow> (Threw, s)
            | Some encoded \<Rightarrow>
                (case ann_refresh ann of
                   None \<Rightarrow> (Dropped, s)
                 | Some t \<Rightarrow> onrefresh e s t req))"
  using assms by (simp add: onannounce_def annSignable_def split: option.splits)

text \<open>
  C5. The claim asks that a refresh request whose token \<open>t\<close> names, by the hex of its
  hash, a slot of the refresh cache gets the stored record installed again, the slot of
  the hash deleted and the entry bound under the hex of \<open>t\<close>, with a reply. The
  request below is such a one: the cache holds a slot under the hex of the hash of
  \<open>[7]\<close>, and the payload decodes to the refresh token \<open>[7]\<close> with no peer and no
  signature. The handler leaves through the exception of the encoder on the null peer:
  no reply, the store as it was, the slot not rotated.
\<close>

theorem refresh_request_throws:
  "refreshes refresh_store (toString_hex (crypto_generichash example_env [7] None)) =
     Some example_refresh
   \<and> decode (decode_announce example_env) (req_value (request_of [2, 3] (Some [4]))) =
       Some \<lparr>ann_peer = None, ann_refresh = Some [7], ann_signature = None\<rparr>
   \<and> onannounce example_env refresh_store (request_of [2, 3] (Some [4])) =
       (Threw, refresh_store)
   \<and> refreshes (snd (onannounce example_env refresh_store (request_of [2, 3] (Some [4]))))
        (toString_hex [7]) = None"
proof -
  have k: "refreshes refresh_store (toString_hex (crypto_generichash example_env [7] None)) =
             Some example_refresh"
    by (simp add: refresh_store_def)
  have d: "decode (decode_announce example_env) (req_value (request_of [2, 3] (Some [4]))) =
             Some \<lparr>ann_peer = None, ann_refresh = Some [7], ann_signature = None\<rparr>"
    by (simp add: decode_def request_of_def example_env_def example_decode_announce_def)
  have t: "req_target (request_of [2, 3] (Some [4])) = Some [2, 3]"
    "req_token (request_of [2, 3] (Some [4])) = Some [7]"
    by (simp_all add: request_of_def)
  have n: "encode_peer_null example_env = None"
    by (simp add: example_env_def)
  have r: "onannounce example_env refresh_store (request_of [2, 3] (Some [4])) =
             (Threw, refresh_store)"
    using onannounce_peerless [OF t d, of refresh_store] n by simp
  have h: "toString_hex [7] \<noteq> toString_hex (crypto_generichash example_env [7] None)"
    using toString_hex_inject [of "[7]" "crypto_generichash example_env [7] None"]
    by (auto simp: example_env_def)
  have "refreshes refresh_store (toString_hex [7]) = None"
    using h by (simp add: refresh_store_def empty_store_def)
  with k d r show ?thesis by simp
qed

text \<open>
  C6. The unannounce handler does something other than return silently only for a
  request with target and token whose payload decodes to a peer and a signature that
  verifies, under the peer's public key, over the hash of target, node id, token,
  encoded peer and refresh (or the empty Buffer) in the unannounce namespace. For such
  a request it replies, deletes the router entry of the target exactly when the hash of
  the public key is the target, and removes the pair of target and public key from the
  announce cache.
\<close>

theorem onunannounce_acts_iff_verified:
  assumes "k = toString_hex target" and "s' = snd (onunannounce e s req)"
    and "signable = crypto_generichash_batch e
                      [target, dht_id s, token, encode_peer e p,
                       (case ann_refresh unann of None \<Rightarrow> [] | Some r \<Rightarrow> r)] (NS_UNANNOUNCE e)"
  shows "(onunannounce e s req \<noteq> (Dropped, s) \<longrightarrow>
            (\<exists>target' token' unann' p' sg'.
               req_target req = Some target' \<and> req_token req = Some token'
               \<and> decode (decode_announce e) (req_value req) = Some unann'
               \<and> ann_peer unann' = Some p' \<and> ann_signature unann' = Some sg'
               \<and> crypto_sign_verify_detached e sg'
                    (crypto_generichash_batch e
                       [target', dht_id s, token', encode_peer e p',
                        (case ann_refresh unann' of None \<Rightarrow> [] | Some r \<Rightarrow> r)]
                       (NS_UNANNOUNCE e))
                    (publicKey p')))
       \<and> (req_target req = Some target \<and> req_token req = Some token
            \<and> decode (decode_announce e) (req_value req) = Some unann
            \<and> ann_peer unann = Some p \<and> ann_signature unann = Some sg
            \<and> crypto_sign_verify_detached e sg signable (publicKey p) \<longrightarrow>
            fst (onunannounce e s req) = Replied None no_token_no_closer
            \<and> (crypto_generichash e (publicKey p) None = target \<longrightarrow>
                 dht_router s' = router_delete (dht_router s) (KString k)
                 \<and> router_get (dht_router s') (KString k) = None)
            \<and> (crypto_generichash e (publicKey p) None \<noteq> target \<longrightarrow>
                 dht_router s' = dht_router s)
            \<and> records s' = records_remove (records s) k (publicKey p)
            \<and> records_lookup (records s') k (publicKey p) = None)"
proof (intro conjI impI)
  assume "onunannounce e s req \<noteq> (Dropped, s)"
  then show "\<exists>target' token' unann' p' sg'.
               req_target req = Some target' \<and> req_token req = Some token'
               \<and> decode (decode_announce e) (req_value req) = Some unann'
               \<and> ann_peer unann' = Some p' \<and> ann_signature unann' = Some sg'
               \<and> crypto_sign_verify_detached e sg'
                    (crypto_generichash_batch e
                       [target', dht_id s, token', encode_peer e p',
                        (case ann_refresh unann' of None \<Rightarrow> [] | Some r \<Rightarrow> r)]
                       (NS_UNANNOUNCE e))
                    (publicKey p')"
    by (auto simp: onunannounce_def annSignable_peer split: option.splits if_splits)
next
  assume a: "req_target req = Some target \<and> req_token req = Some token
            \<and> decode (decode_announce e) (req_value req) = Some unann
            \<and> ann_peer unann = Some p \<and> ann_signature unann = Some sg
            \<and> crypto_sign_verify_detached e sg signable (publicKey p)"
  then have run: "onunannounce e s req =
                    (Replied None no_token_no_closer, unannounce e s target (publicKey p))"
    unfolding assms(3) by (simp add: onunannounce_def annSignable_peer)
  show "fst (onunannounce e s req) = Replied None no_token_no_closer"
    by (simp add: run)
  show r: "records s' = records_remove (records s) k (publicKey p)"
    by (simp add: assms(1,2) run unannounce_def Let_def)
  show "records_lookup (records s') k (publicKey p) = None"
    by (simp add: r records_lookup_remove)
  {
    assume h: "crypto_generichash e (publicKey p) None = target"
    show d: "dht_router s' = router_delete (dht_router s) (KString k)"
      using h by (simp add: assms(1,2) run unannounce_def Let_def)
    show "router_get (dht_router s') (KString k) = None"
      by (simp add: d router_get_def router_delete_def)
  }
  {
    assume h: "crypto_generichash e (publicKey p) None \<noteq> target"
    show "dht_router s' = dht_router s"
      using h by (simp add: assms(2) run unannounce_def Let_def)
  }
qed

theorem onunannounce_acts_iff_verified_witness:
  "onunannounce example_env empty_store (request_of [2, 3] (Some [2])) \<noteq> (Dropped, empty_store)
   \<and> fst (onunannounce example_env empty_store (request_of [2, 3] (Some [2]))) =
       Replied None no_token_no_closer
   \<and> router_get (dht_router (snd (onunannounce example_env empty_store
                                     (request_of [2, 3] (Some [2])))))
         (KString (toString_hex [2, 3])) = None
   \<and> records_lookup (records (snd (onunannounce example_env empty_store
                                      (request_of [2, 3] (Some [2])))))
         (toString_hex [2, 3]) (publicKey example_peer) = None"
proof -
  let ?unann = "\<lparr>ann_peer = Some example_peer, ann_refresh = None,
                  ann_signature = Some [2, 3, 9, 7, 1, 2, 4, 1, 2, 3, 4, 101]\<rparr>"
  have a: "req_target (request_of [2, 3] (Some [2])) = Some [2, 3]
     \<and> req_token (request_of [2, 3] (Some [2])) = Some [7]
     \<and> decode (decode_announce example_env) (req_value (request_of [2, 3] (Some [2]))) =
         Some ?unann
     \<and> ann_peer ?unann = Some example_peer
     \<and> ann_signature ?unann = Some [2, 3, 9, 7, 1, 2, 4, 1, 2, 3, 4, 101]
     \<and> crypto_sign_verify_detached example_env [2, 3, 9, 7, 1, 2, 4, 1, 2, 3, 4, 101]
         (crypto_generichash_batch example_env
            [[2, 3], dht_id empty_store, [7], encode_peer example_env example_peer,
             (case ann_refresh ?unann of None \<Rightarrow> [] | Some r \<Rightarrow> r)]
            (NS_UNANNOUNCE example_env))
         (publicKey example_peer)"
    by (simp add: request_of_def decode_def example_env_def example_decode_announce_def
        empty_store_def example_encode_peer_def example_peer_def)
  have self: "crypto_generichash example_env (publicKey example_peer) None = [2, 3]"
    by (simp add: example_env_def example_peer_def)
  note t = onunannounce_acts_iff_verified [OF refl refl refl, of example_env empty_store
      "request_of [2, 3] (Some [2])" "[2, 3]" "[7]" ?unann example_peer
      "[2, 3, 9, 7, 1, 2, 4, 1, 2, 3, 4, 101]"]
  from t a self have
    "fst (onunannounce example_env empty_store (request_of [2, 3] (Some [2]))) =
       Replied None no_token_no_closer"
    and "router_get (dht_router (snd (onunannounce example_env empty_store
                                     (request_of [2, 3] (Some [2])))))
         (KString (toString_hex [2, 3])) = None"
    and "records_lookup (records (snd (onunannounce example_env empty_store
                                      (request_of [2, 3] (Some [2])))))
         (toString_hex [2, 3]) (publicKey example_peer) = None"
    by blast+
  then show ?thesis by auto
qed

subsection \<open>Validation failures\<close>

lemma missing_target_dropped:
  "missing_target req \<Longrightarrow> onrequest e c s req = (Dropped, s)"
  by (cases c)
    (simp_all add: missing_target_def onlookup_def onfindpeer_def onannounce_def
      onunannounce_def onmutableget_def onmutableput_def onimmutableget_def onimmutableput_def)

lemma missing_token_dropped:
  "missing_token c req \<Longrightarrow> onrequest e c s req = (Dropped, s)"
  by (cases c)
    (simp_all add: onannounce_def onunannounce_def onmutableput_def onimmutableput_def
      split: option.splits)

lemma unparseable_payload_dropped:
  "unparseable_payload e c req \<Longrightarrow> onrequest e c s req = (Dropped, s)"
  by (cases c)
    (auto simp: onannounce_def onunannounce_def onmutableput_def onimmutableput_def
      onmutableget_def decode_def split: option.splits)

lemma bad_signature_dropped:
  "bad_signature e s c req \<Longrightarrow> onrequest e c s req = (Dropped, s)"
  by (cases c)
    (auto simp: onannounce_def onunannounce_def onmutableput_def bad_announce_signature_def
      bad_mutable_signature_def annSignable_peer decode_def Let_def split: option.splits)

lemma wrong_target_hash_dropped:
  "wrong_target_hash e c req \<Longrightarrow> onrequest e c s req = (Dropped, s)"
  by (cases c)
    (auto simp: onmutableput_def onimmutableput_def decode_def Let_def split: option.splits)

lemma only_mutable_put_errors:
  "fst (onrequest e c s req) = Errored code \<Longrightarrow> c = MUTABLE_PUT"
  by (cases c)
    (auto simp: onlookup_def onfindpeer_def onannounce_def onunannounce_def onrefresh_def
      onmutableget_def onimmutableget_def onimmutableput_def Let_def no_token_no_closer_def
      split: option.splits if_splits)

lemma missing_peer_dropped:
  "missing_peer e c req \<Longrightarrow> \<not> (signs_null_peer e c req \<and> encode_peer_null e = None) \<Longrightarrow>
   onrequest e c s req = (Dropped, s)"
  by (cases c)
    (auto simp: onannounce_def onunannounce_def annSignable_def peerless_def refreshless_def
      signs_null_peer_def split: option.splits)

lemma signs_null_peer_throws:
  "signs_null_peer e c req \<Longrightarrow> encode_peer_null e = None \<Longrightarrow> onrequest e c s req = (Threw, s)"
  by (auto simp: signs_null_peer_def peerless_def onannounce_def annSignable_def
      split: option.splits)

text \<open>
  Every validation failure but one makes the handler return with no reply and the store
  as it was. The one is the announce that decodes to no peer, on which the handler
  leaves through the exception of the encoder.
\<close>

lemma validation_failure_dropped:
  assumes "validation_failure e s c req"
    and "\<not> (signs_null_peer e c req \<and> encode_peer_null e = None)"
  shows "onrequest e c s req = (Dropped, s)"
proof -
  from assms(1) consider "missing_target req" | "missing_token c req"
    | "unparseable_payload e c req" | "missing_peer e c req"
    | "bad_signature e s c req" | "wrong_target_hash e c req"
    unfolding validation_failure_def by blast
  then show ?thesis
  proof cases
    case 1
    then show ?thesis by (rule missing_target_dropped)
  next
    case 2
    then show ?thesis by (rule missing_token_dropped)
  next
    case 3
    then show ?thesis by (rule unparseable_payload_dropped)
  next
    case 4
    then show ?thesis using assms(2) by (rule missing_peer_dropped)
  next
    case 5
    then show ?thesis by (rule bad_signature_dropped)
  next
    case 6
    then show ?thesis by (rule wrong_target_hash_dropped)
  qed
qed

lemma onrequest_never_Errored: "fst (onrequest e c s req) \<noteq> Errored code"
proof (cases "c = MUTABLE_PUT")
  case True
  then show ?thesis by (simp add: onmutableput_never_Errored)
next
  case False
  then show ?thesis using only_mutable_put_errors by blast
qed

text \<open>
  C8. The claim asks that every validation failure makes the handler return with no
  reply and no exception, and that the two seq conflicts of a mutable put are answered
  with their typed errors. Neither holds throughout. The announce below has target and
  token and a payload that decodes to no peer, no refresh token and no signature, a
  request with nothing to announce that \<open>onannounce\<close> means to drop; the handler
  leaves through the exception of the encoder on the null peer. And no handler, the one
  for mutable puts included, ever answers with a typed error.
\<close>

theorem peerless_announce_throws:
  "validation_failure example_env empty_store ANNOUNCE (request_of [2, 3] (Some [5]))
   \<and> decode (decode_announce example_env) (req_value (request_of [2, 3] (Some [5]))) =
       Some \<lparr>ann_peer = None, ann_refresh = None, ann_signature = None\<rparr>
   \<and> onrequest example_env ANNOUNCE empty_store (request_of [2, 3] (Some [5])) =
       (Threw, empty_store)
   \<and> fst (onrequest e c s req) \<noteq> Errored code"
proof -
  have d: "decode (decode_announce example_env) (req_value (request_of [2, 3] (Some [5]))) =
             Some \<lparr>ann_peer = None, ann_refresh = None, ann_signature = None\<rparr>"
    by (simp add: decode_def request_of_def example_env_def example_decode_announce_def)
  have v: "validation_failure example_env empty_store ANNOUNCE (request_of [2, 3] (Some [5]))"
    by (simp add: validation_failure_def peerless_def refreshless_def d)
  have n: "signs_null_peer example_env ANNOUNCE (request_of [2, 3] (Some [5]))"
    by (simp add: signs_null_peer_def peerless_def d) (simp add: request_of_def)
  have "encode_peer_null example_env = None"
    by (simp add: example_env_def)
  with n have "onrequest example_env ANNOUNCE empty_store (request_of [2, 3] (Some [5])) =
                 (Threw, empty_store)"
    by (rule signs_null_peer_throws)
  with d v show ?thesis using onrequest_never_Errored by blast
qed

subsection \<open>Abort by the server's hook\<close>

lemma step_aborted: "step c aborted = aborted"
  by (simp add: step_def aborted_def)

lemma run_aborted: "run c n aborted = aborted"
  by (induction n) (simp_all add: step_aborted)

lemma step_vetoed_inv:
  assumes "record_found c" and "\<not> server_holepunch c" and "vetoed_inv a"
  shows "vetoed_inv (step c a)"
proof (cases "a = aborted")
  case True
  then show ?thesis by (simp add: step_aborted vetoed_inv_def)
next
  case False
  with assms(3) have b: "before_probing (phase a)" "emitted a = []" "connections a = 0"
    by (simp_all add: vetoed_inv_def)
  from b(1) show ?thesis
  proof (cases "phase a" rule: before_probing.cases)
    case 7
    with b show ?thesis
      by (simp add: step_def vetoed_inv_def fail_with_def aborted_def)
  qed (use assms(1,2) b in \<open>simp_all add: step_def vetoed_inv_def\<close>)
qed

lemma run_vetoed_inv:
  assumes "record_found c" and "\<not> server_holepunch c"
  shows "vetoed_inv a \<Longrightarrow> vetoed_inv (run c n a)"
  by (induction n arbitrary: a) (simp_all add: step_vetoed_inv[OF assms])

lemma run_add: "run c (m + n) a = run c n (run c m a)"
  by (induction m arbitrary: a) simp_all

lemma run_7_aborted:
  assumes "record_found c" and "\<not> server_holepunch c"
  shows "run c 7 connect = aborted"
proof -
  have "run c 7 connect = step c (step c (step c (step c (step c (step c (step c connect))))))"
    by (simp add: eval_nat_numeral)
  also have "\<dots> = aborted"
    using assms by (simp add: step_def connect_def fail_with_def aborted_def)
  finally show ?thesis .
qed

text \<open>
  C9. In an attempt that finds the server's record and in which the server's
  \<open>holepunch\<close> hook returns false, the server's connection callback never fires and
  the client's socket never opens; from the seventh step on the attempt is closed and
  the client's socket has emitted exactly an error with code \<open>HOLEPUNCH_ABORTED\<close>
  and then close.
\<close>

theorem server_veto_aborts_connect:
  assumes "record_found c" and "\<not> server_holepunch c"
  shows "(\<forall>n. connections (run c n connect) = 0 \<and> Open_event \<notin> set (emitted (run c n connect)))
       \<and> (\<forall>n. 7 \<le> n \<longrightarrow>
              phase (run c n connect) = CLOSED
              \<and> emitted (run c n connect) = [Error_event HOLEPUNCH_ABORTED, Close_event])"
proof (intro conjI allI impI)
  fix n
  have "vetoed_inv connect" by (simp add: vetoed_inv_def connect_def)
  then have i: "vetoed_inv (run c n connect)" by (rule run_vetoed_inv[OF assms])
  then show "connections (run c n connect) = 0"
    by (auto simp: vetoed_inv_def aborted_def)
  from i show "Open_event \<notin> set (emitted (run c n connect))"
    by (auto simp: vetoed_inv_def aborted_def)
next
  fix n :: nat assume "7 \<le> n"
  then obtain m where "n = 7 + m" using le_Suc_ex by blast
  then have r: "run c n connect = aborted"
    by (simp only: run_add run_7_aborted[OF assms] run_aborted)
  show "phase (run c n connect) = CLOSED"
    by (simp add: r aborted_def)
  show "emitted (run c n connect) = [Error_event HOLEPUNCH_ABORTED, Close_event]"
    by (simp add: r aborted_def)
qed

theorem server_veto_aborts_connect_witness:
  "record_found server_vetoes \<and> \<not> server_holepunch server_vetoes
   \<and> connections (run server_vetoes 7 connect) = 0
   \<and> phase (run server_vetoes 7 connect) = CLOSED
   \<and> emitted (run server_vetoes 7 connect) = [Error_event HOLEPUNCH_ABORTED, Close_event]"
proof -
  have h: "record_found server_vetoes" "\<not> server_holepunch server_vetoes"
    by (simp_all add: server_vetoes_def)
  from server_veto_aborts_connect [OF h] h show ?thesis by auto
qed

end
